theory Spec2Isabelle
  imports Main "HOL-Library.Word"
begin

unbundle bit_operations_syntax

section \<open>Data model\<close>

text \<open>
  Python \<open>bytes\<close> are sequences of 8-bit values; a Python \<open>str\<close> is a sequence
  of Unicode code points (values below \<open>0x110000\<close>), kept here as natural numbers.
  Every exception the modelled code can raise is a value of \<open>error\<close>.
\<close>

type_synonym byte = "8 word"
type_synonym bytes = "byte list"
type_synonym pystr = "nat list"

datatype error =
    ValueError
  | TypeError
  | KeyError
  | UnicodeEncodeError
  | UnicodeDecodeError
  | BinasciiError
  | BadSignatureError
  | TransportError
  | InvalidMnemonicError
  | InvalidAddressError
  | InvalidAmountError

text \<open>An ASCII literal of the source as a Python \<open>str\<close>.\<close>

definition lit :: "string \<Rightarrow> pystr" where
  "lit s = map of_char s"

section \<open>Python built-ins used by the client\<close>

subsection \<open>\<open>bytes(list_of_int)\<close>\<close>

text \<open>\<open>bytes(xs)\<close> raises \<open>ValueError\<close> unless every element is in \<open>range(256)\<close>.\<close>

definition bytes_of_ints :: "int list \<Rightarrow> error + bytes" where
  "bytes_of_ints xs =
     (if list_all (\<lambda>x. 0 \<le> x \<and> x < 256) xs then Inr (map word_of_int xs)
      else Inl ValueError)"

subsection \<open>Slicing \<open>xs[:k]\<close>\<close>

text \<open>
  A negative stop counts from the end (and is clamped at the start); a stop that is
  not negative, zero included, counts from the start.
\<close>

definition py_slice_to :: "'a list \<Rightarrow> int \<Rightarrow> 'a list" where
  "py_slice_to xs k =
     (if k < 0 then take (nat (int (length xs) + k)) xs else take (nat k) xs)"

subsection \<open>\<open>str.encode()\<close> and \<open>bytes.decode()\<close>: strict UTF-8\<close>

definition is_surrogate :: "nat \<Rightarrow> bool" where
  "is_surrogate c \<longleftrightarrow> 0xD800 \<le> c \<and> c \<le> 0xDFFF"

definition utf8_char :: "nat \<Rightarrow> bytes" where
  "utf8_char c =
     (if c < 0x80 then [of_nat c]
      else if c < 0x800 then [of_nat (0xC0 + c div 64), of_nat (0x80 + c mod 64)]
      else if c < 0x10000 then
        [of_nat (0xE0 + c div 4096), of_nat (0x80 + (c div 64) mod 64), of_nat (0x80 + c mod 64)]
      else
        [of_nat (0xF0 + c div 262144), of_nat (0x80 + (c div 4096) mod 64),
         of_nat (0x80 + (c div 64) mod 64), of_nat (0x80 + c mod 64)])"

fun str_encode :: "pystr \<Rightarrow> error + bytes" where
  "str_encode [] = Inr []"
| "str_encode (c # cs) =
     (if is_surrogate c \<or> 0x10FFFF < c then Inl UnicodeEncodeError
      else case str_encode cs of
             Inl e \<Rightarrow> Inl e
           | Inr bs \<Rightarrow> Inr (utf8_char c @ bs))"

definition is_cont :: "byte \<Rightarrow> bool" where
  "is_cont b \<longleftrightarrow> 0x80 \<le> unat b \<and> unat b \<le> 0xBF"

definition cont_bits :: "byte \<Rightarrow> nat" where
  "cont_bits b = unat b - 0x80"

definition emit :: "nat \<Rightarrow> error + pystr \<Rightarrow> error + pystr" where
  "emit c r = (case r of Inl e \<Rightarrow> Inl e | Inr cs \<Rightarrow> Inr (c # cs))"

text \<open>
  The decoder rejects truncated sequences, stray continuation bytes, overlong forms,
  surrogates and values above \<open>0x10FFFF\<close>.
\<close>

fun bytes_decode :: "bytes \<Rightarrow> error + pystr" where
  "bytes_decode [] = Inr []"
| "bytes_decode (b0 # bs) =
     (let n0 = unat b0 in
      if n0 < 0x80 then emit n0 (bytes_decode bs)
      else if 0xC2 \<le> n0 \<and> n0 \<le> 0xDF then
        (case bs of
           b1 # r \<Rightarrow>
             if is_cont b1 then emit ((n0 - 0xC0) * 64 + cont_bits b1) (bytes_decode r)
             else Inl UnicodeDecodeError
         | _ \<Rightarrow> Inl UnicodeDecodeError)
      else if 0xE0 \<le> n0 \<and> n0 \<le> 0xEF then
        (case bs of
           b1 # b2 # r \<Rightarrow>
             (let c = (n0 - 0xE0) * 4096 + cont_bits b1 * 64 + cont_bits b2 in
              if is_cont b1 \<and> is_cont b2 \<and> 0x800 \<le> c \<and> \<not> is_surrogate c
              then emit c (bytes_decode r)
              else Inl UnicodeDecodeError)
         | _ \<Rightarrow> Inl UnicodeDecodeError)
      else if 0xF0 \<le> n0 \<and> n0 \<le> 0xF4 then
        (case bs of
           b1 # b2 # b3 # r \<Rightarrow>
             (let c = (n0 - 0xF0) * 262144 + cont_bits b1 * 4096 + cont_bits b2 * 64
                      + cont_bits b3 in
              if is_cont b1 \<and> is_cont b2 \<and> is_cont b3 \<and> 0x10000 \<le> c \<and> c \<le> 0x10FFFF
              then emit c (bytes_decode r)
              else Inl UnicodeDecodeError)
         | _ \<Rightarrow> Inl UnicodeDecodeError)
      else Inl UnicodeDecodeError)"

text \<open>\<open>s.encode('ascii')\<close>, as \<open>base64.b64decode\<close> applies it to a \<open>str\<close> argument.\<close>

definition ascii_encode :: "pystr \<Rightarrow> error + bytes" where
  "ascii_encode s = (if list_all (\<lambda>c. c < 128) s then Inr (map of_nat s) else Inl ValueError)"

subsection \<open>\<open>base64.b64encode\<close> and \<open>base64.b64decode\<close>\<close>

text \<open>
  The encoding table \<open>A-Z a-z 0-9 + /\<close> indexed by a 6-bit value, and its inverse
  (\<open>None\<close> for a byte outside the alphabet).
\<close>

definition table_b2a :: "byte \<Rightarrow> byte" where
  "table_b2a v =
     (if v < 26 then v + 65
      else if v < 52 then v + 71
      else if v < 62 then v - 4
      else if v = 62 then 43
      else 47)"

definition table_a2b :: "byte \<Rightarrow> byte option" where
  "table_a2b c =
     (if 65 \<le> c \<and> c \<le> 90 then Some (c - 65)
      else if 97 \<le> c \<and> c \<le> 122 then Some (c - 71)
      else if 48 \<le> c \<and> c \<le> 57 then Some (c + 4)
      else if c = 43 then Some 62
      else if c = 47 then Some 63
      else None)"

definition BASE64_PAD :: byte where
  "BASE64_PAD = 61"

fun b64encode :: "bytes \<Rightarrow> bytes" where
  "b64encode [] = []"
| "b64encode [a] =
     [table_b2a (drop_bit 2 a), table_b2a (push_bit 4 (a AND 3)), BASE64_PAD, BASE64_PAD]"
| "b64encode [a, b] =
     [table_b2a (drop_bit 2 a), table_b2a (push_bit 4 (a AND 3) OR drop_bit 4 b),
      table_b2a (push_bit 2 (b AND 15)), BASE64_PAD]"
| "b64encode (a # b # c # rest) =
     [table_b2a (drop_bit 2 a), table_b2a (push_bit 4 (a AND 3) OR drop_bit 4 b),
      table_b2a (push_bit 2 (b AND 15) OR drop_bit 6 c), table_b2a (c AND 63)]
     @ b64encode rest"

text \<open>
  \<open>binascii.a2b_base64\<close> in its default, non-strict mode: a character outside the
  alphabet is skipped, a pad character ends the input once it completes a quad, and
  input that stops inside a quad is an error.
\<close>

fun a2b_loop :: "bytes \<Rightarrow> nat \<Rightarrow> byte \<Rightarrow> nat \<Rightarrow> bytes \<Rightarrow> error + bytes" where
  "a2b_loop [] quad_pos leftchar pads out =
     (if quad_pos \<noteq> 0 then Inl BinasciiError else Inr out)"
| "a2b_loop (this_ch # cs) quad_pos leftchar pads out =
     (if this_ch = BASE64_PAD then
        (if 2 \<le> quad_pos \<and> 4 \<le> quad_pos + (pads + 1) then Inr out
         else a2b_loop cs quad_pos leftchar (if 2 \<le> quad_pos then pads + 1 else pads) out)
      else case table_a2b this_ch of
             None \<Rightarrow> a2b_loop cs quad_pos leftchar pads out
           | Some v \<Rightarrow>
               (if quad_pos = 0 then a2b_loop cs 1 v 0 out
                else if quad_pos = 1 then
                  a2b_loop cs 2 (v AND 15) 0 (out @ [push_bit 2 leftchar OR drop_bit 4 v])
                else if quad_pos = 2 then
                  a2b_loop cs 3 (v AND 3) 0 (out @ [push_bit 4 leftchar OR drop_bit 2 v])
                else
                  a2b_loop cs 0 0 0 (out @ [push_bit 6 leftchar OR v])))"

definition b64decode :: "pystr \<Rightarrow> error + bytes" where
  "b64decode s =
     (case ascii_encode s of
        Inl e \<Rightarrow> Inl e
      | Inr data \<Rightarrow> a2b_loop data 0 0 0 [])"

section \<open>The signing library\<close>

text \<open>
  The Ed25519 primitive itself belongs to the signing library and is a parameter of the
  model: \<open>detached sk m\<close> is the detached signature of \<open>m\<close> under the secret key,
  \<open>verify_detached pk sig m\<close> is the library's verdict. The combined mode that the
  client calls is the library's wrapper around them: the signed message is the
  signature followed by the message, and opening fails on a buffer shorter than a
  signature as well as on a rejected one.
\<close>

record ed25519 =
  detached :: "bytes \<Rightarrow> bytes \<Rightarrow> bytes"
  verify_detached :: "bytes \<Rightarrow> bytes \<Rightarrow> bytes \<Rightarrow> bool"

definition crypto_sign_BYTES :: nat where
  "crypto_sign_BYTES = 64"

definition crypto_sign :: "ed25519 \<Rightarrow> bytes \<Rightarrow> bytes \<Rightarrow> bytes" where
  "crypto_sign lib message sk = detached lib sk message @ message"

definition crypto_sign_open :: "ed25519 \<Rightarrow> bytes \<Rightarrow> bytes \<Rightarrow> error + bytes" where
  "crypto_sign_open lib signed_msg pk =
     (if length signed_msg < crypto_sign_BYTES then Inl BadSignatureError
      else if verify_detached lib pk (take crypto_sign_BYTES signed_msg)
                (drop crypto_sign_BYTES signed_msg)
      then Inr (drop crypto_sign_BYTES signed_msg)
      else Inl BadSignatureError)"

section \<open>Message signing (\<open>UmiPy.sign_message\<close>, \<open>UmiPy.sign_verify\<close>)\<close>

definition sign_message :: "ed25519 \<Rightarrow> int list \<Rightarrow> pystr \<Rightarrow> error + pystr" where
  "sign_message lib private_key message =
     (case str_encode message of
        Inl e \<Rightarrow> Inl e
      | Inr encoded_message \<Rightarrow>
          (case bytes_of_ints private_key of
             Inl e \<Rightarrow> Inl e
           | Inr sk \<Rightarrow>
               (let result = crypto_sign lib encoded_message sk
                in bytes_decode
                     (b64encode (py_slice_to result (- int (length encoded_message)))))))"

text \<open>
  \<open>to_public_key\<close> comes from the transfer module and is a parameter here; it yields
  the key bytes of an address or fails.
\<close>

definition sign_verify ::
  "ed25519 \<Rightarrow> (pystr \<Rightarrow> error + bytes) \<Rightarrow> pystr \<Rightarrow> pystr \<Rightarrow> pystr \<Rightarrow> error + bool" where
  "sign_verify lib to_public_key signature original_message address =
     (case to_public_key address of
        Inl e \<Rightarrow> Inl e
      | Inr public_key \<Rightarrow>
          (case b64decode signature of
             Inl e \<Rightarrow> Inl e
           | Inr base64_sig \<Rightarrow>
               (case str_encode original_message of
                  Inl e \<Rightarrow> Inl e
                | Inr m \<Rightarrow>
                    (case crypto_sign_open lib (base64_sig @ m) public_key of
                       Inl e \<Rightarrow> (if e = BadSignatureError then Inr False else Inl e)
                     | Inr result \<Rightarrow>
                         (case bytes_decode result of
                            Inl e \<Rightarrow> Inl e
                          | Inr s \<Rightarrow> Inr (s = original_message))))))"

section \<open>A stand-in signing library for concrete evaluation\<close>

text \<open>
  Concrete instances of the general theorems below are evaluated with this stand-in for
  the library: every signature is 64 zero bytes, and exactly that signature is accepted.
\<close>

definition zero_sig :: bytes where
  "zero_sig = replicate 64 0"

definition stub_lib :: ed25519 where
  "stub_lib = \<lparr>detached = (\<lambda>sk m. zero_sig), verify_detached = (\<lambda>pk sg m. sg = zero_sig)\<rparr>"

section \<open>Properties\<close>

lemma py_slice_to_neg_len:
  "py_slice_to (xs @ ys) (- int (length ys)) = (if ys = [] then [] else xs)"
  by (simp add: py_slice_to_def)

lemma sign_message_empty_aux:
  "bytes_of_ints private_key = Inr sk \<Longrightarrow> sign_message lib private_key [] = Inr []"
  by (simp add: sign_message_def crypto_sign_def py_slice_to_def)


subsection \<open>Base64: tables and regrouping of bits\<close>

lemma sextet_cases: "v < (64::byte) \<Longrightarrow> v \<in> set (map of_nat [0..<64])"
proof -
  assume "v < 64"
  then have "unat v < 64" by (simp add: word_less_nat_alt)
  then have "unat v \<in> set [0..<64]" by simp
  then have "of_nat (unat v) \<in> (of_nat ` set [0..<64] :: byte set)"
    by (rule imageI)
  then show ?thesis by simp
qed

lemma table_all:
  "\<forall>v \<in> set (map of_nat [0..<64]).
     table_a2b (table_b2a v) = Some v \<and> table_b2a v \<noteq> BASE64_PAD \<and> unat (table_b2a v) < 128"
  by code_simp

lemma table_a2b_b2a: "v < 64 \<Longrightarrow> table_a2b (table_b2a v) = Some v"
  using sextet_cases table_all by blast

lemma table_b2a_not_pad: "v < 64 \<Longrightarrow> table_b2a v \<noteq> BASE64_PAD"
  using sextet_cases table_all by blast

lemma table_b2a_ascii: "v < 64 \<Longrightarrow> unat (table_b2a v) < 128"
  using sextet_cases table_all by blast

lemma masks: "(3::byte) = mask 2" "(15::byte) = mask 4" "(63::byte) = mask 6"
  by (simp_all add: mask_eq_exp_minus_1)

lemma lt64_iff: "(x::byte) < 64 \<longleftrightarrow> x AND mask 6 = x"
  using less_mask_eq[of x 6] and_mask_less_size[of 6 x] by (auto simp: word_size)

lemma upt8: "[0..<8] = [0, 1, 2, 3, 4, 5, 6, 7]"
  by (simp add: upt_rec)

lemma byte_eqI:
  fixes x y :: byte
  assumes "list_all (\<lambda>n. bit x n = bit y n) [0..<8]"
  shows "x = y"
proof (rule bit_word_eqI)
  fix n
  assume "n < LENGTH(8)"
  then have "n \<in> set [0..<8]" by simp
  with assms show "bit x n = bit y n" by (simp only: list_all_iff)
qed

lemma hi_bit: "bit (a::byte) n \<Longrightarrow> n < 8"
  using bit_imp_le_length[of a n] by simp

lemma sb1: "drop_bit 2 (a::byte) < 64"
  unfolding lt64_iff
  by (rule byte_eqI, unfold upt8 list.pred_inject)
     (auto simp: bit_simps masks numeral_2_eq_2[symmetric] numeral_3_eq_3[symmetric] dest: hi_bit)
lemma sb2: "push_bit 4 (a AND 3) < (64::byte)"
  unfolding lt64_iff
  by (rule byte_eqI, unfold upt8 list.pred_inject)
     (auto simp: bit_simps masks numeral_2_eq_2[symmetric] numeral_3_eq_3[symmetric] dest: hi_bit)
lemma sb3: "push_bit 4 (a AND 3) OR drop_bit 4 b < (64::byte)"
  unfolding lt64_iff
  by (rule byte_eqI, unfold upt8 list.pred_inject)
     (auto simp: bit_simps masks numeral_2_eq_2[symmetric] numeral_3_eq_3[symmetric] dest: hi_bit)
lemma sb4: "push_bit 2 (b AND 15) < (64::byte)"
  unfolding lt64_iff
  by (rule byte_eqI, unfold upt8 list.pred_inject)
     (auto simp: bit_simps masks numeral_2_eq_2[symmetric] numeral_3_eq_3[symmetric] dest: hi_bit)
lemma sb5: "push_bit 2 (b AND 15) OR drop_bit 6 c < (64::byte)"
  unfolding lt64_iff
  by (rule byte_eqI, unfold upt8 list.pred_inject)
     (auto simp: bit_simps masks numeral_2_eq_2[symmetric] numeral_3_eq_3[symmetric] dest: hi_bit)
lemma sb6: "c AND 63 < (64::byte)"
  unfolding lt64_iff
  by (rule byte_eqI, unfold upt8 list.pred_inject)
     (auto simp: bit_simps masks numeral_2_eq_2[symmetric] numeral_3_eq_3[symmetric] dest: hi_bit)
lemma rg1: "push_bit 2 (drop_bit 2 (a::byte)) OR drop_bit 4 (push_bit 4 (a AND 3) OR drop_bit 4 b) = a"
  by (rule byte_eqI, unfold upt8 list.pred_inject)
     (auto simp: bit_simps masks numeral_2_eq_2[symmetric] numeral_3_eq_3[symmetric] dest: hi_bit)
lemma rg2: "push_bit 2 (drop_bit 2 (a::byte)) OR drop_bit 4 (push_bit 4 (a AND 3)) = a"
  by (rule byte_eqI, unfold upt8 list.pred_inject)
     (auto simp: bit_simps masks numeral_2_eq_2[symmetric] numeral_3_eq_3[symmetric] dest: hi_bit)
lemma rg3: "push_bit 4 ((push_bit 4 (a AND 3) OR drop_bit 4 b) AND 15) OR drop_bit 2 (push_bit 2 (b AND 15) OR drop_bit 6 c) = (b::byte)"
  by (rule byte_eqI, unfold upt8 list.pred_inject)
     (auto simp: bit_simps masks numeral_2_eq_2[symmetric] numeral_3_eq_3[symmetric] dest: hi_bit)
lemma rg4: "push_bit 4 ((push_bit 4 (a AND 3) OR drop_bit 4 b) AND 15) OR drop_bit 2 (push_bit 2 (b AND 15)) = (b::byte)"
  by (rule byte_eqI, unfold upt8 list.pred_inject)
     (auto simp: bit_simps masks numeral_2_eq_2[symmetric] numeral_3_eq_3[symmetric] dest: hi_bit)
lemma rg5: "push_bit 6 ((push_bit 2 (b AND 15) OR drop_bit 6 c) AND 3) OR (c AND 63) = (c::byte)"
  by (rule byte_eqI, unfold upt8 list.pred_inject)
     (auto simp: bit_simps masks numeral_2_eq_2[symmetric] numeral_3_eq_3[symmetric] dest: hi_bit)

lemmas sextet_bounds = sb1 sb2 sb3 sb4 sb5 sb6
lemmas regroup = rg1 rg2 rg3 rg4 rg5

lemma a2b_loop_b64encode: "a2b_loop (b64encode xs) 0 0 0 out = Inr (out @ xs)"
proof (induction xs arbitrary: out rule: b64encode.induct)
  case 1
  show ?case by simp
next
  case (2 a)
  show ?case
    by (simp add: table_a2b_b2a table_b2a_not_pad sextet_bounds regroup
          del: push_bit_and push_bit_or drop_bit_and drop_bit_or)
next
  case (3 a b)
  show ?case
    by (simp add: table_a2b_b2a table_b2a_not_pad sextet_bounds regroup
          del: push_bit_and push_bit_or drop_bit_and drop_bit_or)
next
  case (4 a b c rest)
  show ?case
    by (simp add: table_a2b_b2a table_b2a_not_pad sextet_bounds regroup "4.IH"
          del: push_bit_and push_bit_or drop_bit_and drop_bit_or)
qed

lemma b64encode_ascii: "\<forall>c \<in> set (b64encode xs). unat c < 128"
  by (induction xs rule: b64encode.induct)
     (simp_all add: table_b2a_ascii sextet_bounds BASE64_PAD_def
          del: push_bit_and push_bit_or drop_bit_and drop_bit_or)

lemma bytes_decode_ascii: "\<forall>c \<in> set bs. unat c < 128 \<Longrightarrow> bytes_decode bs = Inr (map unat bs)"
  by (induction bs) (simp_all add: emit_def)

lemma ascii_encode_unat: "\<forall>c \<in> set bs. unat c < 128 \<Longrightarrow> ascii_encode (map unat bs) = Inr bs"
  by (auto simp: ascii_encode_def list_all_iff map_idI)

lemma b64_roundtrip: "b64decode (map unat (b64encode xs)) = Inr xs"
  by (simp add: b64decode_def ascii_encode_unat b64encode_ascii a2b_loop_b64encode)

lemma length_b64encode: "length (b64encode xs) = 4 * ((length xs + 2) div 3)"
  by (induction xs rule: b64encode.induct) (simp_all, arith)

section \<open>Claims\<close>

text \<open>
  C9: for the empty message, \<open>sign_message\<close> returns the empty string, whatever the key
  and whatever the signature the library computes: the slice \<open>result[:-0]\<close> is
  \<open>result[:0]\<close> and keeps nothing.
\<close>

theorem sign_message_empty:
  "bytes_of_ints private_key = Inr sk \<Longrightarrow> sign_message lib private_key [] = Inr []"
  by (simp add: sign_message_def crypto_sign_def py_slice_to_def)

theorem sign_message_empty_witness:
  "bytes_of_ints [7, 8, 9] = Inr [7, 8, 9] \<and> sign_message stub_lib [7, 8, 9] [] = Inr []"
proof -
  have k: "bytes_of_ints [7, 8, 9] = Inr [7, 8, 9]"
    by (simp add: bytes_of_ints_def)
  show ?thesis using k sign_message_empty [OF k, of stub_lib] by simp
qed

end
